theory Spec2Isabelle
  imports Main "HOL-Library.Signed_Division"
begin

section \<open>Runtime values\<close>

text \<open>
  The subscriber code of \<^verbatim>\<open>coordinator/subscriber.go\<close> is embedded with explicit
  state passing. A Go run-time panic is a value of type \<open>panic\<close>; a function that can
  panic returns \<open>panic + 'a\<close> with \<open>Inl\<close> for the panic.
\<close>

datatype panic =
    send_on_closed_channel
  | close_of_closed_channel
  | close_of_nil_channel
  | index_out_of_range
  | integer_divide_by_zero
  | makechan_size_out_of_range
  | nil_pointer_dereference
  | assignment_to_entry_in_nil_map

text \<open>The logger is a sink: each call appends one entry with its zap fields.\<close>

datatype zap_field =
    zap_String string string
  | zap_Strings string "string list"
  | zap_Error string

datatype log_entry =
    Logger_Error string "zap_field list"
  | Logger_Info string "zap_field list"

section \<open>Destination clients\<close>

text \<open>
  \<open>url.URL\<close> as far as the code reads it: the scheme, the host and \<open>String()\<close>.
\<close>

record URL =
  Scheme :: string
  Host :: string
  url_String :: string

text \<open>The TLS configuration built by \<open>NewHTTPSClient\<close>; \<open>tls_RootCAs = None\<close> is the nil pool.\<close>

record tls_Config =
  tls_InsecureSkipVerify :: bool
  tls_RootCAs :: "string option"

text \<open>
  An \<open>array.Record\<close> is an interface value: \<open>None\<close> is nil. Only its schema is read.
\<close>

datatype array_Record = array_Record (Schema: string)

text \<open>
  The two implementations of the interface \<open>Client\<close>. An \<open>HTTPClient\<close> holds its URL and
  the \<open>http.Client\<close> (timeout and, for https, the transport's TLS configuration). An
  \<open>RPCClient\<close> holds the address and the \<open>DoPut\<close> stream, \<open>None\<close> when nil.
\<close>

datatype Client =
    HTTPClient (http_url: URL) (http_timeout: int) (http_tls: "tls_Config option")
  | RPCClient (address: string) (doput: "nat option")

text \<open>
  The network is outside the program. \<open>http_NewRequest\<close> is the error of
  \<open>http.NewRequest\<close> for a URL, \<open>http_Do\<close> the outcome of \<open>client.Do\<close> for (URL, db, rp,
  body): a transport error, or the status code with the outcome of reading the body;
  \<open>fmt_Errorf\<close> the message of \<open>fmt.Errorf\<close> for a format string without arguments;
  \<open>flight_Write\<close> the error of writing a record with a descriptor path on a stream.
  An error is represented by its message.
\<close>

record transport =
  http_NewRequest :: "string \<Rightarrow> string option"
  fmt_Errorf :: "string \<Rightarrow> string"
  http_Do :: "string \<Rightarrow> string \<Rightarrow> string \<Rightarrow> string \<Rightarrow> string + (int \<times> (string + string))"
  flight_Write :: "nat \<Rightarrow> string \<Rightarrow> array_Record \<Rightarrow> string option"

definition HTTPClient_Send ::
  "transport \<Rightarrow> URL \<Rightarrow> string \<Rightarrow> string \<Rightarrow> string \<Rightarrow> string option" where
  "HTTPClient_Send tr u dbn rpn lineProtocol =
     (case http_NewRequest tr (url_String u @ ''/write'') of
        Some err \<Rightarrow> Some err
      | None \<Rightarrow>
         (case http_Do tr (url_String u @ ''/write'') dbn rpn lineProtocol of
            Inl err \<Rightarrow> Some err
          | Inr (status, body) \<Rightarrow>
              if status \<noteq> 204 \<and> status \<noteq> 200
              then (case body of Inl err \<Rightarrow> Some err | Inr b \<Rightarrow> Some (fmt_Errorf tr b))
              else None))"

definition flight_path :: "string \<Rightarrow> string \<Rightarrow> string \<Rightarrow> string" where
  "flight_path dbn rpn mst =
     ''{'' @ [CHR 0x22] @ ''db'' @ [CHR 0x22] @ '': '' @ [CHR 0x22] @ dbn @ [CHR 0x22] @
     '', '' @ [CHR 0x22] @ ''rp'' @ [CHR 0x22] @ '': '' @ [CHR 0x22] @ rpn @ [CHR 0x22] @
     '', '' @ [CHR 0x22] @ ''mst'' @ [CHR 0x22] @ '': '' @ [CHR 0x22] @ mst @ [CHR 0x22] @ ''}''"

text \<open>
  \<open>RPCClient.SendColumn\<close> calls \<open>record.Schema()\<close> first, which panics on a nil record;
  writing on a nil stream panics as well.
\<close>

definition RPCClient_SendColumn ::
  "transport \<Rightarrow> nat option \<Rightarrow> string \<Rightarrow> string \<Rightarrow> string \<Rightarrow> array_Record option
     \<Rightarrow> panic + string option" where
  "RPCClient_SendColumn tr c dbn rpn mst record' =
     (case record' of
        None \<Rightarrow> Inl nil_pointer_dereference
      | Some r \<Rightarrow>
         (case c of
            None \<Rightarrow> Inl nil_pointer_dereference
          | Some stream \<Rightarrow> Inr (flight_Write tr stream (flight_path dbn rpn mst) r)))"

text \<open>The interface methods, dispatched on the implementation.\<close>

fun Client_Send ::
  "transport \<Rightarrow> Client \<Rightarrow> string \<Rightarrow> string \<Rightarrow> string \<Rightarrow> panic + string option" where
  "Client_Send tr (HTTPClient u t c) dbn rpn lineProtocol =
     Inr (HTTPClient_Send tr u dbn rpn lineProtocol)"
| "Client_Send tr (RPCClient a c) dbn rpn lineProtocol =
     Inr (Some ''rpc client dosen't send line protocol'')"

fun Client_SendColumn ::
  "transport \<Rightarrow> Client \<Rightarrow> string \<Rightarrow> string \<Rightarrow> string \<Rightarrow> array_Record option
     \<Rightarrow> panic + string option" where
  "Client_SendColumn tr (HTTPClient u t c) dbn rpn mst record' =
     Inr (Some ''http client dosen't send column'')"
| "Client_SendColumn tr (RPCClient a c) dbn rpn mst record' =
     RPCClient_SendColumn tr c dbn rpn mst record'"

fun Destination :: "Client \<Rightarrow> string" where
  "Destination (HTTPClient u t c) = url_String u"
| "Destination (RPCClient a c) = a"

section \<open>Write requests and the channel\<close>

text \<open>
  \<open>LineProtocol\<close> is a byte slice: \<open>None\<close> is the nil slice, \<open>Some []\<close> an empty slice
  that is not nil.
\<close>

record WriteRequest =
  Client :: int
  LineProtocol :: "string option"
  Mst :: string
  Record :: "array_Record option"

text \<open>
  A Go channel of write requests: nil, or made with a capacity. \<open>buf\<close> is its buffer,
  oldest first; \<open>recvq\<close> counts the workers parked in a receive on the empty channel;
  \<open>handed\<close> holds the requests a send passed directly to a parked worker, whose loop
  body has not run yet.
\<close>

datatype chan =
    NilChan
  | Chan (cap: nat) (buf: "WriteRequest list") (closed: bool) (recvq: nat)
      (handed: "WriteRequest list")

section \<open>BaseWriter\<close>

record BaseWriter =
  ch :: chan
  clients :: "Client list"
  db :: string
  rp :: string
  name :: string

definition NewBaseWriter :: "string \<Rightarrow> string \<Rightarrow> string \<Rightarrow> Client list \<Rightarrow> BaseWriter" where
  "NewBaseWriter dbn rpn nm cs =
     \<lparr>ch = NilChan, clients = cs, db = dbn, rp = rpn, name = nm\<rparr>"

text \<open>Indexing \<open>w.clients[i]\<close> with a Go int: out of range panics.\<close>

definition client_at :: "BaseWriter \<Rightarrow> int \<Rightarrow> panic + Client" where
  "client_at w i =
     (if 0 \<le> i \<and> i < int (length (clients w)) then Inr (clients w ! nat i)
      else Inl index_out_of_range)"

text \<open>The \<open>default\<close> branch of the select in \<open>Send\<close>: the request is dropped and logged.\<close>

definition Send_default ::
  "BaseWriter \<Rightarrow> WriteRequest \<Rightarrow> log_entry list \<Rightarrow> panic + (BaseWriter \<times> log_entry list)" where
  "Send_default w wr lg =
     (case client_at w (Client wr) of
        Inl p \<Rightarrow> Inl p
      | Inr c \<Rightarrow>
          Inr (w, lg @ [Logger_Error ''failed to send write request to write buffer''
                 [zap_String ''dest'' (Destination c), zap_String ''db'' (db w),
                  zap_String ''rp'' (rp w)]]))"

text \<open>
  \<open>BaseWriter.Send\<close>: a select with one send case and a default. On a nil channel the
  send is never ready; on a closed channel it is chosen and panics; on an open channel
  it goes to a parked receiver if there is one, else into the buffer if there is room,
  else the default branch runs.
\<close>

definition BaseWriter_Send ::
  "BaseWriter \<Rightarrow> WriteRequest \<Rightarrow> log_entry list \<Rightarrow> panic + (BaseWriter \<times> log_entry list)" where
  "BaseWriter_Send w wr lg =
     (case ch w of
        NilChan \<Rightarrow> Send_default w wr lg
      | Chan c b cl rq hs \<Rightarrow>
          if cl then Inl send_on_closed_channel
          else if 0 < rq then Inr (w\<lparr>ch := Chan c b cl (rq - 1) (hs @ [wr])\<rparr>, lg)
          else if length b < c then Inr (w\<lparr>ch := Chan c (b @ [wr]) cl rq hs\<rparr>, lg)
          else Send_default w wr lg)"

text \<open>
  \<open>BaseWriter.Start\<close>: \<open>make\<close> panics on a negative size. The workers it launches are
  goroutines: they are not part of the writer, and what they do is given below by the
  steps \<open>Run_step\<close> and \<open>Run_handed\<close>, which a scheduler may take at any time. No worker
  is parked in a receive when \<open>Start\<close> returns.
\<close>

definition BaseWriter_Start :: "BaseWriter \<Rightarrow> int \<Rightarrow> int \<Rightarrow> panic + BaseWriter" where
  "BaseWriter_Start w concurrency buffersize =
     (if buffersize < 0 then Inl makechan_size_out_of_range
      else Inr (w\<lparr>ch := Chan (nat buffersize) [] False 0 []\<rparr>))"

text \<open>
  \<open>BaseWriter.Stop\<close>: \<open>close\<close> panics on a nil and on a closed channel; the parked
  workers wake up and leave their loop.
\<close>

definition BaseWriter_Stop :: "BaseWriter \<Rightarrow> panic + BaseWriter" where
  "BaseWriter_Stop w =
     (case ch w of
        NilChan \<Rightarrow> Inl close_of_nil_channel
      | Chan c b cl rq hs \<Rightarrow>
          if cl then Inl close_of_closed_channel
          else Inr (w\<lparr>ch := Chan c b True 0 hs\<rparr>))"

section \<open>The worker loop\<close>

text \<open>
  The calls a worker makes on the \<open>Client\<close> interface are recorded, with the receiver
  and the arguments, next to the log.
\<close>

datatype invocation =
    Send_call Client string string string
  | SendColumn_call Client string string string "array_Record option"

type_synonym sink = "log_entry list \<times> invocation list"

text \<open>What \<open>Run\<close> does with the error a client returns.\<close>

definition Run_log :: "BaseWriter \<Rightarrow> Client \<Rightarrow> string option \<Rightarrow> log_entry list" where
  "Run_log w c err =
     (case err of
        None \<Rightarrow> []
      | Some e \<Rightarrow>
          [Logger_Error ''failed to forward write request''
             [zap_String ''dest'' (Destination c), zap_String ''db'' (db w),
              zap_String ''rp'' (rp w), zap_Error e]])"

text \<open>The body of the loop in \<open>BaseWriter.Run\<close> for one received request.\<close>

definition Run_body ::
  "transport \<Rightarrow> BaseWriter \<Rightarrow> WriteRequest \<Rightarrow> sink \<Rightarrow> panic + sink" where
  "Run_body tr w wr st =
     (case client_at w (Client wr) of
        Inl p \<Rightarrow> Inl p
      | Inr c \<Rightarrow>
         (case LineProtocol wr of
            Some lp \<Rightarrow>
              (case Client_Send tr c (db w) (rp w) lp of
                 Inl p \<Rightarrow> Inl p
               | Inr err \<Rightarrow>
                   Inr (fst st @ Run_log w c err, snd st @ [Send_call c (db w) (rp w) lp]))
          | None \<Rightarrow>
              (case Client_SendColumn tr c (db w) (rp w) (Mst wr) (Record wr) of
                 Inl p \<Rightarrow> Inl p
               | Inr err \<Rightarrow>
                   Inr (fst st @ Run_log w c err,
                        snd st @ [SendColumn_call c (db w) (rp w) (Mst wr) (Record wr)]))))"

text \<open>
  One turn of \<open>for wr := range w.ch\<close> by a worker at the head of the loop: it takes the
  oldest buffered request and runs the body; on an empty open channel it parks; on an
  empty closed channel the loop ends; a receive on a nil channel never returns.
\<close>

definition Run_step ::
  "transport \<Rightarrow> BaseWriter \<Rightarrow> sink \<Rightarrow> panic + (BaseWriter \<times> sink)" where
  "Run_step tr w st =
     (case ch w of
        NilChan \<Rightarrow> Inr (w, st)
      | Chan c b cl rq hs \<Rightarrow>
         (case b of
            wr # b' \<Rightarrow>
              (case Run_body tr w wr st of
                 Inl p \<Rightarrow> Inl p
               | Inr st' \<Rightarrow> Inr (w\<lparr>ch := Chan c b' cl rq hs\<rparr>, st'))
          | [] \<Rightarrow>
              if cl then Inr (w, st)
              else Inr (w\<lparr>ch := Chan c [] cl (rq + 1) hs\<rparr>, st)))"

text \<open>A worker that was handed a request while parked runs the body on it.\<close>

definition Run_handed ::
  "transport \<Rightarrow> BaseWriter \<Rightarrow> sink \<Rightarrow> panic + (BaseWriter \<times> sink)" where
  "Run_handed tr w st =
     (case ch w of
        NilChan \<Rightarrow> Inr (w, st)
      | Chan c b cl rq hs \<Rightarrow>
         (case hs of
            [] \<Rightarrow> Inr (w, st)
          | wr # hs' \<Rightarrow>
              (case Run_body tr w wr st of
                 Inl p \<Rightarrow> Inl p
               | Inr st' \<Rightarrow> Inr (w\<lparr>ch := Chan c b cl rq hs'\<rparr>, st'))))"

section \<open>The two writers\<close>

text \<open>
  \<open>AllWriter\<close> and \<open>RoundRobinWriter\<close> embed a \<open>BaseWriter\<close>; the second adds the
  cursor \<open>i\<close>. Its mutex orders concurrent callers and has no effect on one caller.
  The cursor is a Go int; it starts at 0 and is only ever assigned a remainder modulo
  the number of clients, so the properties below are stated for a cursor that is a
  client index, where no 64-bit overflow occurs.
\<close>

datatype SubscriberWriter =
    AllWriter BaseWriter
  | RoundRobinWriter BaseWriter int

fun base :: "SubscriberWriter \<Rightarrow> BaseWriter" where
  "base (AllWriter w) = w"
| "base (RoundRobinWriter w i) = w"

text \<open>The requests the two methods of a writer build for client \<open>i\<close>.\<close>

definition line_request :: "string option \<Rightarrow> int \<Rightarrow> WriteRequest" where
  "line_request lineProtocol i =
     \<lparr>Client = i, LineProtocol = lineProtocol, Mst = [], Record = None\<rparr>"

definition column_request :: "string \<Rightarrow> array_Record option \<Rightarrow> int \<Rightarrow> WriteRequest" where
  "column_request mst record' i =
     \<lparr>Client = i, LineProtocol = None, Mst = mst, Record = record'\<rparr>"

lemma BaseWriter_Send_clients:
  "BaseWriter_Send w wr lg = Inr (w', lg') \<Longrightarrow> clients w' = clients w"
  by (auto simp: BaseWriter_Send_def Send_default_def split: chan.splits if_splits sum.splits)

text \<open>
  The loop of \<open>AllWriter.Write\<close> and of \<open>AllWriter.WriteColumn\<close> from index \<open>i\<close> on:
  \<open>len(w.clients)\<close> is read again in every turn.
\<close>

function AllWriter_loop ::
  "(int \<Rightarrow> WriteRequest) \<Rightarrow> nat \<Rightarrow> BaseWriter \<Rightarrow> log_entry list
     \<Rightarrow> panic + (BaseWriter \<times> log_entry list)" where
  "AllWriter_loop mk i w lg =
     (if i < length (clients w) then
        (case BaseWriter_Send w (mk (int i)) lg of
           Inl p \<Rightarrow> Inl p
         | Inr (w', lg') \<Rightarrow> AllWriter_loop mk (i + 1) w' lg')
      else Inr (w, lg))"
  by pat_completeness auto
termination
  by (relation "measure (\<lambda>(mk, i, w, lg). length (clients w) - i)")
     (auto dest: BaseWriter_Send_clients)

declare AllWriter_loop.simps [simp del]

definition AllWriter_Write ::
  "BaseWriter \<Rightarrow> string option \<Rightarrow> log_entry list \<Rightarrow> panic + (BaseWriter \<times> log_entry list)" where
  "AllWriter_Write w lineProtocol lg = AllWriter_loop (line_request lineProtocol) 0 w lg"

definition AllWriter_WriteColumn ::
  "BaseWriter \<Rightarrow> string \<Rightarrow> array_Record option \<Rightarrow> log_entry list
     \<Rightarrow> panic + (BaseWriter \<times> log_entry list)" where
  "AllWriter_WriteColumn w mst record' lg = AllWriter_loop (column_request mst record') 0 w lg"

text \<open>Go's \<open>%\<close> on ints: the remainder of the truncated division, a panic on zero.\<close>

definition go_rem :: "int \<Rightarrow> int \<Rightarrow> panic + int" where
  "go_rem a b = (if b = 0 then Inl integer_divide_by_zero else Inr (a smod b))"

text \<open>
  \<open>RoundRobinWriter.Write\<close> and \<open>WriteColumn\<close>: the cursor is read and advanced, then
  the request for the index read is sent.
\<close>

definition RoundRobinWriter_send ::
  "(int \<Rightarrow> WriteRequest) \<Rightarrow> BaseWriter \<Rightarrow> int \<Rightarrow> log_entry list
     \<Rightarrow> panic + (SubscriberWriter \<times> log_entry list)" where
  "RoundRobinWriter_send mk w i lg =
     (case go_rem (i + 1) (int (length (clients w))) of
        Inl p \<Rightarrow> Inl p
      | Inr i' \<Rightarrow>
         (case BaseWriter_Send w (mk i) lg of
            Inl p \<Rightarrow> Inl p
          | Inr (w', lg') \<Rightarrow> Inr (RoundRobinWriter w' i', lg')))"

text \<open>The methods of the interface \<open>SubscriberWriter\<close>.\<close>

fun Write ::
  "SubscriberWriter \<Rightarrow> string option \<Rightarrow> log_entry list
     \<Rightarrow> panic + (SubscriberWriter \<times> log_entry list)" where
  "Write (AllWriter w) lineProtocol lg =
     (case AllWriter_Write w lineProtocol lg of
        Inl p \<Rightarrow> Inl p
      | Inr (w', lg') \<Rightarrow> Inr (AllWriter w', lg'))"
| "Write (RoundRobinWriter w i) lineProtocol lg =
     RoundRobinWriter_send (line_request lineProtocol) w i lg"

fun WriteColumn ::
  "SubscriberWriter \<Rightarrow> string \<Rightarrow> array_Record option \<Rightarrow> log_entry list
     \<Rightarrow> panic + (SubscriberWriter \<times> log_entry list)" where
  "WriteColumn (AllWriter w) mst record' lg =
     (case AllWriter_WriteColumn w mst record' lg of
        Inl p \<Rightarrow> Inl p
      | Inr (w', lg') \<Rightarrow> Inr (AllWriter w', lg'))"
| "WriteColumn (RoundRobinWriter w i) mst record' lg =
     RoundRobinWriter_send (column_request mst record') w i lg"

definition Name :: "SubscriberWriter \<Rightarrow> string" where
  "Name w = name (base w)"

definition Clients :: "SubscriberWriter \<Rightarrow> Client list" where
  "Clients w = clients (base w)"

fun Start :: "SubscriberWriter \<Rightarrow> int \<Rightarrow> int \<Rightarrow> panic + SubscriberWriter" where
  "Start (AllWriter w) concurrency buffersize =
     (case BaseWriter_Start w concurrency buffersize of
        Inl p \<Rightarrow> Inl p
      | Inr w' \<Rightarrow> Inr (AllWriter w'))"
| "Start (RoundRobinWriter w i) concurrency buffersize =
     (case BaseWriter_Start w concurrency buffersize of
        Inl p \<Rightarrow> Inl p
      | Inr w' \<Rightarrow> Inr (RoundRobinWriter w' i))"

fun Stop :: "SubscriberWriter \<Rightarrow> panic + SubscriberWriter" where
  "Stop (AllWriter w) =
     (case BaseWriter_Stop w of Inl p \<Rightarrow> Inl p | Inr w' \<Rightarrow> Inr (AllWriter w'))"
| "Stop (RoundRobinWriter w i) =
     (case BaseWriter_Stop w of Inl p \<Rightarrow> Inl p | Inr w' \<Rightarrow> Inr (RoundRobinWriter w' i))"

text \<open>A sequence of calls of \<open>BaseWriter.Send\<close>, and of \<open>Write\<close>, by one caller.\<close>

fun Send_seq ::
  "BaseWriter \<Rightarrow> WriteRequest list \<Rightarrow> log_entry list \<Rightarrow> panic + (BaseWriter \<times> log_entry list)" where
  "Send_seq w [] lg = Inr (w, lg)"
| "Send_seq w (wr # wrs) lg =
     (case BaseWriter_Send w wr lg of
        Inl p \<Rightarrow> Inl p
      | Inr (w', lg') \<Rightarrow> Send_seq w' wrs lg')"

fun Write_seq ::
  "SubscriberWriter \<Rightarrow> string option list \<Rightarrow> log_entry list
     \<Rightarrow> panic + (SubscriberWriter \<times> log_entry list)" where
  "Write_seq w [] lg = Inr (w, lg)"
| "Write_seq w (lp # lps) lg =
     (case Write w lp lg of
        Inl p \<Rightarrow> Inl p
      | Inr (w', lg') \<Rightarrow> Write_seq w' lps lg')"

text \<open>Whether a channel has been closed; a nil channel has not.\<close>

fun chan_closed :: "chan \<Rightarrow> bool" where
  "chan_closed NilChan = False"
| "chan_closed (Chan c b cl rq hs) = cl"



section \<open>Metadata, configuration and libraries\<close>

text \<open>
  Modelled from the spec: the types of package \<open>meta\<close> are declared outside this file.
  A subscription has a name, a mode and a list of destination URIs; a retention policy
  has a name and an ordered list of subscriptions; a database has a name, the name of
  its default retention policy and its retention policies. \<open>WalkRetentionPolicy\<close>
  visits the retention policies in the order of the list.
\<close>

record SubscriptionInfo =
  sub_Name :: string
  Mode :: string
  Destinations :: "string list"

record RetentionPolicyInfo =
  rp_Name :: string
  Subscriptions :: "SubscriptionInfo list"

record DatabaseInfo =
  db_Name :: string
  DefaultRetentionPolicy :: string
  RetentionPolicies :: "RetentionPolicyInfo list"


text \<open>
  Modelled from the spec: \<open>config.Subscriber\<close> is declared outside this file; these are
  the fields the code reads.
\<close>

record config_Subscriber =
  HTTPTimeout :: int
  InsecureSkipVerify :: bool
  HttpsCertificate :: string
  WriteConcurrency :: int
  WriteBufferSize :: int

text \<open>
  The library calls whose outcome the program cannot determine: \<open>url.Parse\<close>,
  \<open>os.ReadFile\<close>, \<open>flight.NewFlightClient\<close> and the client's \<open>DoPut\<close>, each an error
  (\<open>Inl\<close>) or a value.
\<close>

record library =
  url_Parse :: "string \<Rightarrow> string + URL"
  os_ReadFile :: "string \<Rightarrow> string + string"
  flight_NewFlightClient :: "string \<Rightarrow> string + nat"
  flight_DoPut :: "nat \<Rightarrow> string + nat"

text \<open>A constructor panics, returns an error, or returns a value.\<close>

datatype 'a outcome = Panicked panic | Failed string | Returned 'a

section \<open>Construction of clients and writers\<close>

definition NewHTTPClient :: "URL \<Rightarrow> int \<Rightarrow> Client" where
  "NewHTTPClient u timeout = HTTPClient u timeout None"

definition NewHTTPSClient :: "library \<Rightarrow> URL \<Rightarrow> int \<Rightarrow> bool \<Rightarrow> string \<Rightarrow> string + Client" where
  "NewHTTPSClient lib u timeout skipVerify certs =
     (if certs \<noteq> [] then
        (case os_ReadFile lib certs of
           Inl err \<Rightarrow> Inl err
         | Inr caCert \<Rightarrow>
             Inr (HTTPClient u timeout
                    (Some \<lparr>tls_InsecureSkipVerify = skipVerify, tls_RootCAs = Some caCert\<rparr>)))
      else
        Inr (HTTPClient u timeout
               (Some \<lparr>tls_InsecureSkipVerify = skipVerify, tls_RootCAs = None\<rparr>)))"

text \<open>
  \<open>NewRPCClient\<close> drops both errors. When \<open>NewFlightClient\<close> fails its client is nil
  and the call of \<open>DoPut\<close> on it panics; when \<open>DoPut\<close> fails the stream is nil and the
  client is returned with it, with a nil error.
\<close>

definition NewRPCClient :: "library \<Rightarrow> string \<Rightarrow> Client outcome" where
  "NewRPCClient lib addr =
     (case flight_NewFlightClient lib addr of
        Inl err \<Rightarrow> Panicked nil_pointer_dereference
      | Inr client \<Rightarrow>
         (case flight_DoPut lib client of
            Inl err \<Rightarrow> Returned (RPCClient addr None)
          | Inr doPutClient \<Rightarrow> Returned (RPCClient addr (Some doPutClient))))"

text \<open>The client of one destination: the body of the loop in \<open>NewSubscriberWriter\<close>.\<close>

definition new_client :: "library \<Rightarrow> config_Subscriber \<Rightarrow> string \<Rightarrow> Client outcome" where
  "new_client lib cfg dest =
     (case url_Parse lib dest of
        Inl err \<Rightarrow> Failed (''fail to parse '' @ err)
      | Inr u \<Rightarrow>
          if Scheme u = ''http'' then Returned (NewHTTPClient u (HTTPTimeout cfg))
          else if Scheme u = ''https'' then
            (case NewHTTPSClient lib u (HTTPTimeout cfg) (InsecureSkipVerify cfg)
                    (HttpsCertificate cfg) of
               Inl err \<Rightarrow> Failed err
             | Inr c \<Rightarrow> Returned c)
          else if Scheme u = ''rpc'' then NewRPCClient lib (Host u)
          else Failed (''unknown subscription schema '' @ Scheme u))"

fun new_clients ::
  "library \<Rightarrow> config_Subscriber \<Rightarrow> string list \<Rightarrow> Client list \<Rightarrow> Client list outcome" where
  "new_clients lib cfg [] cs = Returned cs"
| "new_clients lib cfg (dest # dests) cs =
     (case new_client lib cfg dest of
        Panicked p \<Rightarrow> Panicked p
      | Failed err \<Rightarrow> Failed err
      | Returned c \<Rightarrow> new_clients lib cfg dests (cs @ [c]))"

definition NewSubscriberWriter ::
  "library \<Rightarrow> config_Subscriber \<Rightarrow> string \<Rightarrow> string \<Rightarrow> string \<Rightarrow> string \<Rightarrow> string list
     \<Rightarrow> SubscriberWriter outcome" where
  "NewSubscriberWriter lib cfg dbn rpn nm mode destinations =
     (case new_clients lib cfg destinations [] of
        Panicked p \<Rightarrow> Panicked p
      | Failed err \<Rightarrow> Failed err
      | Returned cs \<Rightarrow>
          if mode = ''ALL'' then Returned (AllWriter (NewBaseWriter dbn rpn nm cs))
          else if mode = ''ANY'' then Returned (RoundRobinWriter (NewBaseWriter dbn rpn nm cs) 0)
          else Failed (''unknown subscription mode '' @ mode))"

section \<open>The subscriber manager\<close>

text \<open>
  Writers are objects on the heap, shared by reference: the heap is the list of all
  writers allocated so far and an address is an index into it. The registry
  \<open>writers\<close> maps a database name and a retention policy name to a slice of addresses.
  A slice is the list of its elements: \<open>UpdateWriters\<close> compacts a slice in place and
  then assigns the compacted prefix to the registry, and nothing reads the backing
  array in between in a sequential run. The read/write lock of the manager orders
  concurrent callers and has no effect on one caller.
  The logger shared by the manager and its writers is the list \<open>logged\<close>.
\<close>

record state =
  heap :: "SubscriberWriter list"
  writers :: "string \<rightharpoonup> (string \<rightharpoonup> nat list)"
  logged :: "log_entry list"
  lastModifiedID :: nat


text \<open>\<open>s.writers[db][rp]\<close> read with the comma-ok form: a missing inner map reads as nil.\<close>

definition registry :: "state \<Rightarrow> string \<Rightarrow> string \<Rightarrow> nat list option" where
  "registry s dbn rpn = (case writers s dbn of None \<Rightarrow> None | Some m \<Rightarrow> m rpn)"

text \<open>\<open>s.writers[db][rp] = ws\<close>: the assignment panics when the inner map is nil.\<close>

definition set_entry :: "string \<Rightarrow> string \<Rightarrow> nat list \<Rightarrow> state \<Rightarrow> panic + state" where
  "set_entry dbn rpn ws s =
     (case writers s dbn of
        None \<Rightarrow> Inl assignment_to_entry_in_nil_map
      | Some m \<Rightarrow> Inr (s\<lparr>writers := (writers s)(dbn \<mapsto> m(rpn \<mapsto> ws))\<rparr>))"

text \<open>A \<open>for ... range\<close> loop over a list whose body can panic.\<close>

fun for_each :: "('a \<Rightarrow> 's \<Rightarrow> panic + 's) \<Rightarrow> 'a list \<Rightarrow> 's \<Rightarrow> panic + 's" where
  "for_each f [] s = Inr s"
| "for_each f (x # xs) s = (case f x s of Inl p \<Rightarrow> Inl p | Inr s' \<Rightarrow> for_each f xs s')"

subsection \<open>UpdateWriters\<close>










subsection \<open>Send and SendColumn\<close>






subsection \<open>Notions used to state the properties of UpdateWriters\<close>




text \<open>
  A retention policy is settled in a state when the registry holds a list for it, every
  writer of the list is allocated and named after a subscription of the policy, and
  every subscription without a writer of its name in the list is one whose writer
  cannot be constructed. A database is settled when its inner map exists and its
  retention policies are settled.
\<close>

definition settled ::
  "library \<Rightarrow> config_Subscriber \<Rightarrow> string \<Rightarrow> RetentionPolicyInfo \<Rightarrow> state \<Rightarrow> bool" where
  "settled lib cfg dbn rpi s \<longleftrightarrow>
     (\<exists>ws. registry s dbn (rp_Name rpi) = Some ws
        \<and> (\<forall>a \<in> set ws. a < length (heap s)
              \<and> Name (heap s ! a) \<in> sub_Name ` set (Subscriptions rpi))
        \<and> (\<forall>sub \<in> set (Subscriptions rpi).
              sub_Name sub \<notin> (\<lambda>a. Name (heap s ! a)) ` set ws \<longrightarrow>
              (\<exists>err. NewSubscriberWriter lib cfg dbn (rp_Name rpi) (sub_Name sub) (Mode sub)
                       (Destinations sub) = Failed err)))"

definition db_settled ::
  "library \<Rightarrow> config_Subscriber \<Rightarrow> DatabaseInfo \<Rightarrow> state \<Rightarrow> bool" where
  "db_settled lib cfg dbi s \<longleftrightarrow>
     writers s (db_Name dbi) \<noteq> None \<and>
     (\<forall>rpi \<in> set (RetentionPolicies dbi). settled lib cfg (db_Name dbi) rpi s)"

section \<open>Example values\<close>

text \<open>Two plain-transport destinations and a writer over them, for the concrete instances.\<close>

definition url0 :: URL where
  "url0 = \<lparr>Scheme = ''http'', Host = ''h0:8086'', url_String = ''http://h0:8086''\<rparr>"

definition url1 :: URL where
  "url1 = \<lparr>Scheme = ''http'', Host = ''h1:8086'', url_String = ''http://h1:8086''\<rparr>"

definition base0 :: BaseWriter where
  "base0 =
     NewBaseWriter ''db0'' ''rp0'' ''sub0'' [HTTPClient url0 30 None, HTTPClient url1 30 None]"

text \<open>A network on which every request succeeds.\<close>

definition tr0 :: transport where
  "tr0 = \<lparr>http_NewRequest = (\<lambda>u. None),
           fmt_Errorf = (\<lambda>b. b),
           http_Do = (\<lambda>u d r b. Inr (204, Inr [])),
           flight_Write = (\<lambda>s p r. None)\<rparr>"

text \<open>
  Libraries that parse five destinations, find no certificate file and reach a flight
  server that refuses the upload stream.
\<close>

definition url2 :: URL where
  "url2 = \<lparr>Scheme = ''rpc'', Host = ''h2:8305'', url_String = ''rpc://h2:8305''\<rparr>"

definition url3 :: URL where
  "url3 = \<lparr>Scheme = ''https'', Host = ''h3:8086'', url_String = ''https://h3:8086''\<rparr>"

definition url4 :: URL where
  "url4 = \<lparr>Scheme = ''ftp'', Host = ''h4'', url_String = ''ftp://h4''\<rparr>"

definition lib0 :: library where
  "lib0 = \<lparr>url_Parse = (\<lambda>d. if d = ''http://h0:8086'' then Inr url0
                         else if d = ''http://h1:8086'' then Inr url1
                         else if d = ''rpc://h2:8305'' then Inr url2
                         else if d = ''https://h3:8086'' then Inr url3
                         else if d = ''ftp://h4'' then Inr url4
                         else Inl ''invalid URI''),
            os_ReadFile = (\<lambda>p. Inl ''no such file''),
            flight_NewFlightClient = (\<lambda>a. Inr 0),
            flight_DoPut = (\<lambda>c. Inl ''connection refused'')\<rparr>"

definition cfg0 :: config_Subscriber where
  "cfg0 = \<lparr>HTTPTimeout = 30, InsecureSkipVerify = False, HttpsCertificate = ''/ca.pem'',
            WriteConcurrency = 1, WriteBufferSize = 2\<rparr>"












section \<open>Properties of the writers\<close>

subsection \<open>Auxiliary facts\<close>

lemma AllWriter_loop_Send_seq:
  "AllWriter_loop mk i w lg = Send_seq w (map (\<lambda>k. mk (int k)) [i..<length (clients w)]) lg"
proof (induction mk i w lg rule: AllWriter_loop.induct)
  case (1 mk i w lg)
  show ?case
  proof (cases "i < length (clients w)")
    case False
    then show ?thesis by (simp add: AllWriter_loop.simps [of mk i w lg])
  next
    case True
    show ?thesis
    proof (cases "BaseWriter_Send w (mk (int i)) lg")
      case (Inl p)
      with True show ?thesis
        by (simp add: AllWriter_loop.simps [of mk i w lg] upt_rec [of i])
    next
      case (Inr r)
      obtain w' lg' where r: "r = (w', lg')" by (cases r)
      from Inr r have cl: "clients w' = clients w" by (auto dest: BaseWriter_Send_clients)
      from "1.IH" [OF True Inr [unfolded r] refl] cl True Inr r show ?thesis
        by (simp add: AllWriter_loop.simps [of mk i w lg] upt_rec [of i])
    qed
  qed
qed

lemma go_rem_in_range:
  "0 \<le> i \<Longrightarrow> 0 < n \<Longrightarrow> go_rem (i + 1) n = Inr ((i + 1) mod n)"
  by (simp add: go_rem_def signed_modulo_int_def sgn_if)




lemma Write_seq_RoundRobin:
  assumes "0 \<le> i" "i < int (length (clients w))"
  shows "Write_seq (RoundRobinWriter w i) lps lg =
     (case Send_seq w
             (map (\<lambda>k. line_request (lps ! k) ((i + int k) mod int (length (clients w))))
                [0..<length lps]) lg of
        Inl p \<Rightarrow> Inl p
      | Inr (w', lg') \<Rightarrow>
          Inr (RoundRobinWriter w' ((i + int (length lps)) mod int (length (clients w))), lg'))"
  using assms
proof (induction lps arbitrary: w i lg)
  case Nil
  then show ?case by simp
next
  case (Cons lp lps)
  let ?n = "int (length (clients w))"
  from Cons.prems have n: "0 < ?n" by linarith
  have rem: "go_rem (i + 1) ?n = Inr ((i + 1) mod ?n)"
    using Cons.prems n by (intro go_rem_in_range) simp_all
  have i: "i mod ?n = i" using Cons.prems by simp
  show ?case
  proof (cases "BaseWriter_Send w (line_request lp i) lg")
    case (Inl p)
    then show ?thesis
      by (simp add: RoundRobinWriter_send_def rem map_upt_Suc i del: upt_Suc)
  next
    case (Inr r)
    obtain w' lg' where r: "r = (w', lg')" by (cases r)
    from Inr r have cl: "clients w' = clients w" by (auto dest: BaseWriter_Send_clients)
    have i1: "0 \<le> (i + 1) mod ?n" "(i + 1) mod ?n < int (length (clients w'))"
      using n cl by simp_all
    have shift: "\<And>k. ((i + 1) mod ?n + int k) mod ?n = (i + int (Suc k)) mod ?n"
    proof -
      fix k
      have "((i + 1) mod ?n + int k) mod ?n = ((i + 1) + int k) mod ?n"
        by (rule mod_add_left_eq)
      also have "(i + 1) + int k = i + int (Suc k)" by simp
      finally show "((i + 1) mod ?n + int k) mod ?n = (i + int (Suc k)) mod ?n" .
    qed
    have IH: "Write_seq (RoundRobinWriter w' ((i + 1) mod ?n)) lps lg' =
       (case Send_seq w'
               (map (\<lambda>k. line_request (lps ! k) ((i + int (Suc k)) mod ?n)) [0..<length lps])
               lg' of
          Inl p \<Rightarrow> Inl p
        | Inr (w'', lg'') \<Rightarrow>
            Inr (RoundRobinWriter w'' ((i + int (Suc (length lps))) mod ?n), lg''))"
      using Cons.IH [OF i1, of lg'] unfolding cl shift .
    from Inr r IH show ?thesis
      unfolding length_Cons
      by (simp add: RoundRobinWriter_send_def rem map_upt_Suc i del: upt_Suc)
  qed
qed

lemma Send_not_closed:
  "\<not> chan_closed (ch w) \<Longrightarrow> 0 \<le> Client wr \<Longrightarrow> Client wr < int (length (clients w)) \<Longrightarrow>
   \<exists>r. BaseWriter_Send w wr lg = Inr r"
  by (cases "ch w")
     (auto simp: BaseWriter_Send_def Send_default_def client_at_def)



lemma go_rem_zero: "go_rem a 0 = Inl integer_divide_by_zero"
  by (simp add: go_rem_def)

lemma go_rem_nonzero: "b \<noteq> 0 \<Longrightarrow> go_rem a b = Inr (a smod b)"
  by (simp add: go_rem_def)

lemma RoundRobin_Write_then_Run:
  assumes c: "ch b = Chan c [] False 0 []" "0 < c" and i: "0 \<le> i" "i < int (length (clients b))"
  shows "\<exists>b' i'. Write (RoundRobinWriter b i) lineProtocol lg = Inr (RoundRobinWriter b' i', lg)
     \<and> clients b' = clients b \<and> db b' = db b \<and> rp b' = rp b
     \<and> Run_step tr b' st =
         (case Run_body tr b (line_request lineProtocol i) st of
            Inl p \<Rightarrow> Inl p
          | Inr st' \<Rightarrow> Inr (b, st'))"
proof -
  let ?b' = "b\<lparr>ch := Chan c [line_request lineProtocol i] False 0 []\<rparr>"
  from i have n: "int (length (clients b)) \<noteq> 0" by linarith
  have s: "BaseWriter_Send b (line_request lineProtocol i) lg = Inr (?b', lg)"
    using c by (simp add: BaseWriter_Send_def)
  have w: "Write (RoundRobinWriter b i) lineProtocol lg =
      Inr (RoundRobinWriter ?b' ((i + 1) smod int (length (clients b))), lg)"
    by (simp add: RoundRobinWriter_send_def go_rem_nonzero [OF n] s)
  have same: "Run_body tr ?b' (line_request lineProtocol i) st =
      Run_body tr b (line_request lineProtocol i) st"
    by (simp add: Run_body_def client_at_def Run_log_def
          cong: sum.case_cong option.case_cong)
  have restore: "?b'\<lparr>ch := Chan c [] False 0 []\<rparr> = b"
    using c by simp
  have r: "Run_step tr ?b' st =
         (case Run_body tr b (line_request lineProtocol i) st of
            Inl p \<Rightarrow> Inl p
          | Inr st' \<Rightarrow> Inr (b, st'))"
    unfolding Run_step_def by (simp add: same restore split: sum.splits)
  from w r show ?thesis by auto
qed

subsection \<open>Broadcast\<close>

text \<open>
  Claim C5. One \<open>Write\<close> on an \<open>AllWriter\<close> with \<open>N\<close> clients is exactly the sequence
  of \<open>N\<close> calls of \<open>Send\<close>, one for each client index \<open>0, ..., N - 1\<close> in this
  order, each request carrying the payload of the call; \<open>WriteColumn\<close> does the same
  with the measurement and the record of the call.
\<close>

theorem AllWriter_fan_out:
  "Write (AllWriter w) lineProtocol lg =
     (case Send_seq w
             (map (\<lambda>i. \<lparr>Client = int i, LineProtocol = lineProtocol, Mst = [], Record = None\<rparr>)
                [0..<length (clients w)]) lg of
        Inl p \<Rightarrow> Inl p
      | Inr (w', lg') \<Rightarrow> Inr (AllWriter w', lg'))
   \<and> WriteColumn (AllWriter w) mst record' lg =
     (case Send_seq w
             (map (\<lambda>i. \<lparr>Client = int i, LineProtocol = None, Mst = mst, Record = record'\<rparr>)
                [0..<length (clients w)]) lg of
        Inl p \<Rightarrow> Inl p
      | Inr (w', lg') \<Rightarrow> Inr (AllWriter w', lg'))"
  by (simp add: AllWriter_Write_def AllWriter_WriteColumn_def AllWriter_loop_Send_seq
        line_request_def column_request_def)

theorem AllWriter_fan_out_witness:
  "Write (AllWriter (base0\<lparr>ch := Chan 4 [] False 0 []\<rparr>)) (Some ''cpu v=1'') [] =
     Inr (AllWriter (base0\<lparr>ch := Chan 4
        [\<lparr>Client = 0, LineProtocol = Some ''cpu v=1'', Mst = [], Record = None\<rparr>,
         \<lparr>Client = 1, LineProtocol = Some ''cpu v=1'', Mst = [], Record = None\<rparr>] False 0 []\<rparr>), [])"
  using AllWriter_fan_out [of "base0\<lparr>ch := Chan 4 [] False 0 []\<rparr>" "Some ''cpu v=1''" "[]"]
  by (simp add: base0_def NewBaseWriter_def BaseWriter_Send_def upt_rec)

subsection \<open>Rotation\<close>

text \<open>
  Claim C6. On a \<open>RoundRobinWriter\<close> with \<open>N \<ge> 1\<close> clients whose cursor \<open>i\<close> is a
  client index (\<open>0\<close> for a new writer), a sequence of \<open>M\<close> calls of \<open>Write\<close> by one
  caller is exactly the sequence of \<open>M\<close> calls of \<open>Send\<close>, one per call, where call
  number \<open>k\<close> (from 0) carries its own payload and targets client \<open>(i + k) mod N\<close>;
  the cursor ends at \<open>(i + M) mod N\<close>.
\<close>

theorem RoundRobin_cyclic:
  assumes "0 \<le> i" "i < int (length (clients w))"
  shows "Write_seq (RoundRobinWriter w i) lps lg =
     (case Send_seq w
             (map (\<lambda>k. \<lparr>Client = (i + int k) mod int (length (clients w)),
                         LineProtocol = lps ! k, Mst = [], Record = None\<rparr>)
                [0..<length lps]) lg of
        Inl p \<Rightarrow> Inl p
      | Inr (w', lg') \<Rightarrow>
          Inr (RoundRobinWriter w' ((i + int (length lps)) mod int (length (clients w))), lg'))"
  using Write_seq_RoundRobin [OF assms, of lps lg] unfolding line_request_def .

theorem RoundRobin_cyclic_witness:
  "(0::int) \<le> 0 \<and> 0 < int (length (clients base0)) \<and>
   Write_seq (RoundRobinWriter (base0\<lparr>ch := Chan 8 [] False 0 []\<rparr>) 0)
       [Some ''a'', Some ''b'', Some ''c'', Some ''d'', Some ''e''] [] =
     Inr (RoundRobinWriter (base0\<lparr>ch := Chan 8
        [\<lparr>Client = 0, LineProtocol = Some ''a'', Mst = [], Record = None\<rparr>,
         \<lparr>Client = 1, LineProtocol = Some ''b'', Mst = [], Record = None\<rparr>,
         \<lparr>Client = 0, LineProtocol = Some ''c'', Mst = [], Record = None\<rparr>,
         \<lparr>Client = 1, LineProtocol = Some ''d'', Mst = [], Record = None\<rparr>,
         \<lparr>Client = 0, LineProtocol = Some ''e'', Mst = [], Record = None\<rparr>] False 0 []\<rparr>) 1, [])"
  using RoundRobin_cyclic [of 0 "base0\<lparr>ch := Chan 8 [] False 0 []\<rparr>"
      "[Some ''a'', Some ''b'', Some ''c'', Some ''d'', Some ''e'']" "[]"]
  by (simp add: base0_def NewBaseWriter_def BaseWriter_Send_def upt_rec)

subsection \<open>Drop on a full queue\<close>



subsection \<open>A rotation writer needs a client\<close>

text \<open>
  Claim C9. On a \<open>RoundRobinWriter\<close> with no client, \<open>Write\<close> and \<open>WriteColumn\<close> panic
  with an integer division by zero when the cursor is advanced, whereas on an
  \<open>AllWriter\<close> with no client both return with nothing changed. With at least one
  client the division never panics, and on a channel that is not closed, with the
  cursor a client index, both calls return.
\<close>

theorem RoundRobin_needs_a_client:
  "(clients w = [] \<longrightarrow>
      Write (RoundRobinWriter w i) lineProtocol lg = Inl integer_divide_by_zero
    \<and> WriteColumn (RoundRobinWriter w i) mst record' lg = Inl integer_divide_by_zero
    \<and> Write (AllWriter w) lineProtocol lg = Inr (AllWriter w, lg)
    \<and> WriteColumn (AllWriter w) mst record' lg = Inr (AllWriter w, lg))
   \<and> (clients w \<noteq> [] \<longrightarrow>
      Write (RoundRobinWriter w i) lineProtocol lg \<noteq> Inl integer_divide_by_zero
    \<and> WriteColumn (RoundRobinWriter w i) mst record' lg \<noteq> Inl integer_divide_by_zero)
   \<and> (clients w \<noteq> [] \<and> 0 \<le> i \<and> i < int (length (clients w)) \<and> \<not> chan_closed (ch w) \<longrightarrow>
      (\<exists>r. Write (RoundRobinWriter w i) lineProtocol lg = Inr r)
    \<and> (\<exists>r. WriteColumn (RoundRobinWriter w i) mst record' lg = Inr r))"
proof (intro conjI impI)
  assume e: "clients w = []"
  show "Write (RoundRobinWriter w i) lineProtocol lg = Inl integer_divide_by_zero"
    by (simp add: RoundRobinWriter_send_def e go_rem_zero)
  show "WriteColumn (RoundRobinWriter w i) mst record' lg = Inl integer_divide_by_zero"
    by (simp add: RoundRobinWriter_send_def e go_rem_zero)
  show "Write (AllWriter w) lineProtocol lg = Inr (AllWriter w, lg)"
    by (simp add: AllWriter_Write_def AllWriter_loop_Send_seq e)
  show "WriteColumn (AllWriter w) mst record' lg = Inr (AllWriter w, lg)"
    by (simp add: AllWriter_WriteColumn_def AllWriter_loop_Send_seq e)
next
  assume ne: "clients w \<noteq> []"
  then have r: "go_rem (i + 1) (int (length (clients w))) =
      Inr ((i + 1) smod int (length (clients w)))"
    by (intro go_rem_nonzero) simp
  show "Write (RoundRobinWriter w i) lineProtocol lg \<noteq> Inl integer_divide_by_zero"
    by (auto simp: RoundRobinWriter_send_def r BaseWriter_Send_def Send_default_def client_at_def
          split: sum.splits chan.splits if_splits)
  show "WriteColumn (RoundRobinWriter w i) mst record' lg \<noteq> Inl integer_divide_by_zero"
    by (auto simp: RoundRobinWriter_send_def r BaseWriter_Send_def Send_default_def client_at_def
          split: sum.splits chan.splits if_splits)
next
  assume a: "clients w \<noteq> [] \<and> 0 \<le> i \<and> i < int (length (clients w)) \<and> \<not> chan_closed (ch w)"
  then have r: "go_rem (i + 1) (int (length (clients w))) =
      Inr ((i + 1) smod int (length (clients w)))"
    by (intro go_rem_nonzero) simp
  from a obtain x where "BaseWriter_Send w (line_request lineProtocol i) lg = Inr x"
    using Send_not_closed [of w "line_request lineProtocol i" lg]
    by (auto simp: line_request_def)
  then show "\<exists>r. Write (RoundRobinWriter w i) lineProtocol lg = Inr r"
    by (cases x) (simp add: RoundRobinWriter_send_def r)
  from a obtain y where "BaseWriter_Send w (column_request mst record' i) lg = Inr y"
    using Send_not_closed [of w "column_request mst record' i" lg]
    by (auto simp: column_request_def)
  then show "\<exists>r. WriteColumn (RoundRobinWriter w i) mst record' lg = Inr r"
    by (cases y) (simp add: RoundRobinWriter_send_def r)
qed

theorem RoundRobin_needs_a_client_witness:
  "Write (RoundRobinWriter (base0\<lparr>clients := []\<rparr>) 0) (Some ''a'') [] = Inl integer_divide_by_zero
   \<and> Write (AllWriter (base0\<lparr>clients := []\<rparr>)) (Some ''a'') [] = Inr (AllWriter (base0\<lparr>clients := []\<rparr>), [])
   \<and> (\<exists>r. Write (RoundRobinWriter (base0\<lparr>ch := Chan 1 [] False 0 []\<rparr>) 1) (Some ''a'') [] = Inr r)"
  using RoundRobin_needs_a_client [of "base0\<lparr>clients := []\<rparr>" 0 "Some ''a''" "[]"]
    RoundRobin_needs_a_client [of "base0\<lparr>ch := Chan 1 [] False 0 []\<rparr>" 1 "Some ''a''" "[]"]
  by (simp add: base0_def NewBaseWriter_def)

subsection \<open>The worker's choice of the client method\<close>

text \<open>
  Claim C10. The worker calls \<open>Send\<close> exactly when the \<open>LineProtocol\<close> of the request
  is not nil. A \<open>Write\<close> with a nil payload builds the requests of a \<open>WriteColumn\<close>
  with the empty measurement and the nil record, and the worker calls \<open>SendColumn\<close>
  of the target client with these; a \<open>Write\<close> with an empty payload that is not nil
  is passed to \<open>Send\<close>. The last part follows one request of a rotation writer from
  \<open>Write\<close> through the buffer to the worker.
\<close>

theorem Run_classifies_by_nil:
  "Write w None lg = WriteColumn w [] None lg
   \<and> Run_body tr b (line_request None i) st =
       (case client_at b i of
          Inl p \<Rightarrow> Inl p
        | Inr c \<Rightarrow>
           (case Client_SendColumn tr c (db b) (rp b) [] None of
              Inl p \<Rightarrow> Inl p
            | Inr err \<Rightarrow>
                Inr (fst st @ Run_log b c err, snd st @ [SendColumn_call c (db b) (rp b) [] None])))
   \<and> Run_body tr b (line_request (Some []) i) st =
       (case client_at b i of
          Inl p \<Rightarrow> Inl p
        | Inr c \<Rightarrow>
           (case Client_Send tr c (db b) (rp b) [] of
              Inl p \<Rightarrow> Inl p
            | Inr err \<Rightarrow>
                Inr (fst st @ Run_log b c err, snd st @ [Send_call c (db b) (rp b) []])))
   \<and> (Run_body tr b wr st = Inr st' \<longrightarrow>
        (LineProtocol wr \<noteq> None \<longleftrightarrow>
           (\<exists>c lp. snd st' = snd st @ [Send_call c (db b) (rp b) lp])))
   \<and> (ch b = Chan c [] False 0 [] \<and> 0 < c \<and> 0 \<le> i \<and> i < int (length (clients b)) \<longrightarrow>
        (\<exists>b' i'. Write (RoundRobinWriter b i) lineProtocol lg = Inr (RoundRobinWriter b' i', lg)
           \<and> Run_step tr b' st =
               (case Run_body tr b (line_request lineProtocol i) st of
                  Inl p \<Rightarrow> Inl p
                | Inr st' \<Rightarrow> Inr (b, st'))))"
proof (intro conjI impI)
  have same: "line_request None = column_request [] None"
    by (rule ext) (simp add: line_request_def column_request_def)
  show "Write w None lg = WriteColumn w [] None lg"
    by (cases w) (simp_all add: AllWriter_Write_def AllWriter_WriteColumn_def same)
  show "Run_body tr b (line_request None i) st =
       (case client_at b i of
          Inl p \<Rightarrow> Inl p
        | Inr c \<Rightarrow>
           (case Client_SendColumn tr c (db b) (rp b) [] None of
              Inl p \<Rightarrow> Inl p
            | Inr err \<Rightarrow>
                Inr (fst st @ Run_log b c err, snd st @ [SendColumn_call c (db b) (rp b) [] None])))"
    by (simp add: Run_body_def line_request_def split: sum.splits)
  show "Run_body tr b (line_request (Some []) i) st =
       (case client_at b i of
          Inl p \<Rightarrow> Inl p
        | Inr c \<Rightarrow>
           (case Client_Send tr c (db b) (rp b) [] of
              Inl p \<Rightarrow> Inl p
            | Inr err \<Rightarrow>
                Inr (fst st @ Run_log b c err, snd st @ [Send_call c (db b) (rp b) []])))"
    by (simp add: Run_body_def line_request_def split: sum.splits)
next
  assume "Run_body tr b wr st = Inr st'"
  then show "LineProtocol wr \<noteq> None \<longleftrightarrow>
           (\<exists>c lp. snd st' = snd st @ [Send_call c (db b) (rp b) lp])"
    by (auto simp: Run_body_def split: sum.splits option.splits)
next
  assume a: "ch b = Chan c [] False 0 [] \<and> 0 < c \<and> 0 \<le> i \<and> i < int (length (clients b))"
  then show "\<exists>b' i'. Write (RoundRobinWriter b i) lineProtocol lg = Inr (RoundRobinWriter b' i', lg)
           \<and> Run_step tr b' st =
               (case Run_body tr b (line_request lineProtocol i) st of
                  Inl p \<Rightarrow> Inl p
                | Inr st' \<Rightarrow> Inr (b, st'))"
    using RoundRobin_Write_then_Run [of b c i lineProtocol lg tr st] by blast
qed

theorem Run_classifies_by_nil_witness:
  "Run_body tr0 base0 (line_request None 0) ([], []) =
     Inr ([Logger_Error ''failed to forward write request''
             [zap_String ''dest'' ''http://h0:8086'', zap_String ''db'' ''db0'',
              zap_String ''rp'' ''rp0'', zap_Error ''http client dosen't send column'']],
          [SendColumn_call (HTTPClient url0 30 None) ''db0'' ''rp0'' [] None])
   \<and> Run_body tr0 base0 (line_request (Some []) 0) ([], []) =
     Inr ([], [Send_call (HTTPClient url0 30 None) ''db0'' ''rp0'' []])
   \<and> LineProtocol (line_request (Some []) 0) \<noteq> None
   \<and> (\<exists>b' i'. Write (RoundRobinWriter (base0\<lparr>ch := Chan 1 [] False 0 []\<rparr>) 0) None [] =
          Inr (RoundRobinWriter b' i', [])
        \<and> Run_step tr0 b' ([], []) =
          Inr (base0\<lparr>ch := Chan 1 [] False 0 []\<rparr>,
               [Logger_Error ''failed to forward write request''
                  [zap_String ''dest'' ''http://h0:8086'', zap_String ''db'' ''db0'',
                   zap_String ''rp'' ''rp0'', zap_Error ''http client dosen't send column'']],
               [SendColumn_call (HTTPClient url0 30 None) ''db0'' ''rp0'' [] None]))"
proof -
  let ?b = "base0\<lparr>ch := Chan 1 [] False 0 []\<rparr>"
  have body: "Run_body tr0 ?b (line_request None 0) ([], []) =
     Inr ([Logger_Error ''failed to forward write request''
             [zap_String ''dest'' ''http://h0:8086'', zap_String ''db'' ''db0'',
              zap_String ''rp'' ''rp0'', zap_Error ''http client dosen't send column'']],
          [SendColumn_call (HTTPClient url0 30 None) ''db0'' ''rp0'' [] None])"
    by (simp add: Run_body_def line_request_def client_at_def base0_def NewBaseWriter_def
          Run_log_def url0_def)
  have pre: "ch ?b = Chan 1 [] False 0 [] \<and> (0::nat) < 1 \<and> (0::int) \<le> 0
      \<and> 0 < int (length (clients ?b))"
    by (simp add: base0_def NewBaseWriter_def)
  from Run_classifies_by_nil [where tr = tr0 and b = ?b and i = 0 and st = "([], [])"
      and c = 1 and lineProtocol = None and lg = "[]"] pre
  obtain b' i' where
    "Write (RoundRobinWriter ?b 0) None [] = Inr (RoundRobinWriter b' i', [])"
    "Run_step tr0 b' ([], []) =
       (case Run_body tr0 ?b (line_request None 0) ([], []) of
          Inl p \<Rightarrow> Inl p
        | Inr st' \<Rightarrow> Inr (?b, st'))"
    by blast
  then have "\<exists>b' i'. Write (RoundRobinWriter ?b 0) None [] = Inr (RoundRobinWriter b' i', [])
        \<and> Run_step tr0 b' ([], []) =
          Inr (?b,
               [Logger_Error ''failed to forward write request''
                  [zap_String ''dest'' ''http://h0:8086'', zap_String ''db'' ''db0'',
                   zap_String ''rp'' ''rp0'', zap_Error ''http client dosen't send column'']],
               [SendColumn_call (HTTPClient url0 30 None) ''db0'' ''rp0'' [] None])"
    unfolding body sum.case by blast
  moreover have "Run_body tr0 base0 (line_request None 0) ([], []) =
     Inr ([Logger_Error ''failed to forward write request''
             [zap_String ''dest'' ''http://h0:8086'', zap_String ''db'' ''db0'',
              zap_String ''rp'' ''rp0'', zap_Error ''http client dosen't send column'']],
          [SendColumn_call (HTTPClient url0 30 None) ''db0'' ''rp0'' [] None])"
    by (simp add: Run_body_def line_request_def client_at_def base0_def NewBaseWriter_def
          Run_log_def url0_def)
  moreover have "Run_body tr0 base0 (line_request (Some []) 0) ([], []) =
     Inr ([], [Send_call (HTTPClient url0 30 None) ''db0'' ''rp0'' []])"
    by (simp add: Run_body_def line_request_def client_at_def base0_def NewBaseWriter_def
          Run_log_def url0_def HTTPClient_Send_def tr0_def)
  moreover have "LineProtocol (line_request (Some []) 0) \<noteq> None"
    by (simp add: line_request_def)
  ultimately show ?thesis by blast
qed

subsection \<open>Writing to a stopped writer\<close>

lemma Send_closed:
  "chan_closed (ch w) \<Longrightarrow> BaseWriter_Send w wr lg = Inl send_on_closed_channel"
  by (cases "ch w") (simp_all add: BaseWriter_Send_def)

text \<open>
  Claim C1. The claim asks that a write to a stopped writer neither panics nor is
  delivered. \<open>Stop\<close> closes the channel, and the send case of the select in \<open>Send\<close> is
  chosen on a closed channel: the write panics. The instance below starts a writer with
  two clients, stops it and writes once, for both kinds of writer.
\<close>

theorem Write_after_Stop_panics:
  "Start (AllWriter base0) 1 1 = Inr (AllWriter (base0\<lparr>ch := Chan 1 [] False 0 []\<rparr>))
   \<and> Stop (AllWriter (base0\<lparr>ch := Chan 1 [] False 0 []\<rparr>)) =
       Inr (AllWriter (base0\<lparr>ch := Chan 1 [] True 0 []\<rparr>))
   \<and> Write (AllWriter (base0\<lparr>ch := Chan 1 [] True 0 []\<rparr>)) (Some ''cpu v=1'') [] =
       Inl send_on_closed_channel
   \<and> WriteColumn (AllWriter (base0\<lparr>ch := Chan 1 [] True 0 []\<rparr>)) ''cpu''
         (Some (array_Record ''v'')) [] = Inl send_on_closed_channel
   \<and> Write (RoundRobinWriter (base0\<lparr>ch := Chan 1 [] True 0 []\<rparr>) 0) (Some ''cpu v=1'') [] =
       Inl send_on_closed_channel
   \<and> WriteColumn (RoundRobinWriter (base0\<lparr>ch := Chan 1 [] True 0 []\<rparr>) 0) ''cpu''
         (Some (array_Record ''v'')) [] = Inl send_on_closed_channel"
  by (simp add: base0_def NewBaseWriter_def BaseWriter_Start_def BaseWriter_Stop_def
        AllWriter_Write_def AllWriter_WriteColumn_def AllWriter_loop.simps
        RoundRobinWriter_send_def go_rem_def BaseWriter_Send_def)

section \<open>Properties of the construction\<close>

lemma new_clients_Failed:
  "new_client lib cfg dest = Failed err \<Longrightarrow> dest \<in> set dests \<Longrightarrow>
   \<forall>d \<in> set dests. \<forall>p. new_client lib cfg d \<noteq> Panicked p \<Longrightarrow>
   \<exists>err'. new_clients lib cfg dests cs = Failed err'"
proof (induction dests arbitrary: cs)
  case Nil
  then show ?case by simp
next
  case (Cons d dests)
  show ?case
  proof (cases "new_client lib cfg d")
    case (Panicked p)
    with Cons.prems show ?thesis by simp
  next
    case (Failed e)
    then show ?thesis by simp
  next
    case (Returned c)
    with Cons.prems have "dest \<in> set dests" by auto
    with Cons.IH [of "cs @ [c]"] Cons.prems Returned show ?thesis by simp
  qed
qed

text \<open>
  Claim C2. The claim asks that a failure to construct the client of any destination
  makes \<open>NewSubscriberWriter\<close> return an error and no writer. For a destination with the
  scheme \<open>rpc\<close> the code drops the errors of \<open>NewFlightClient\<close> and of \<open>DoPut\<close>: when
  the upload stream cannot be opened, a writer is returned whose client holds a nil
  stream; when the flight client cannot be created, the construction panics.
\<close>

theorem NewSubscriberWriter_rpc_failure:
  "flight_DoPut lib0 0 = Inl ''connection refused''
   \<and> NewSubscriberWriter lib0 cfg0 ''db0'' ''rp0'' ''sub0'' ''ALL''
        [''http://h0:8086'', ''rpc://h2:8305''] =
      Returned (AllWriter (NewBaseWriter ''db0'' ''rp0'' ''sub0''
                  [HTTPClient url0 30 None, RPCClient ''h2:8305'' None]))
   \<and> NewSubscriberWriter (lib0\<lparr>flight_NewFlightClient := (\<lambda>a. Inl ''bad target'')\<rparr>) cfg0
        ''db0'' ''rp0'' ''sub0'' ''ALL'' [''http://h0:8086'', ''rpc://h2:8305''] =
      Panicked nil_pointer_dereference"
  by (simp add: NewSubscriberWriter_def new_client_def NewRPCClient_def NewHTTPClient_def
        lib0_def cfg0_def url0_def url2_def)

section \<open>Properties of the manager\<close>

subsection \<open>Auxiliary facts about Send\<close>



subsection \<open>Send with an empty retention policy\<close>




subsection \<open>Auxiliary facts about UpdateWriters\<close>





lemma for_each_append:
  "for_each f (xs @ ys) s =
     (case for_each f xs s of Inl p \<Rightarrow> Inl p | Inr s' \<Rightarrow> for_each f ys s')"
  by (induction xs arbitrary: s) (auto split: sum.splits)










lemma set_entry_Inr:
  "set_entry dbn rpn ws s = Inr s' \<Longrightarrow>
   (\<exists>m. writers s dbn = Some m \<and> s' = s\<lparr>writers := (writers s)(dbn \<mapsto> m(rpn \<mapsto> ws))\<rparr>)"
  by (auto simp: set_entry_def split: option.splits)











subsection \<open>Reconciliation of one retention policy\<close>





subsection \<open>Auxiliary facts about a second reconciliation\<close>





lemma settled_logged [simp]:
  "settled lib cfg dbn rpi (s\<lparr>logged := lg\<rparr>) \<longleftrightarrow> settled lib cfg dbn rpi s"
  by (simp add: settled_def registry_def)

lemma db_settled_logged [simp]:
  "db_settled lib cfg dbi (s\<lparr>logged := lg\<rparr>) \<longleftrightarrow> db_settled lib cfg dbi s"
  by (simp add: db_settled_def)











subsection \<open>A second reconciliation changes nothing\<close>



end
